theory Spec2Isabelle
  imports Complex_Main
begin

section \<open>JavaScript values\<close>

text \<open>
  The defined JavaScript values that occur in the adapter. The value \<open>undefined\<close>
  is not a constructor: a possibly undefined value is a \<open>jsval option\<close> and
  \<open>None\<close> is \<open>undefined\<close>. A function whose body has no \<open>return\<close>
  statement returns \<open>None\<close>. Objects of the scene graph live in a store and are
  denoted by their address (\<open>JRef\<close>); object literals are association lists.
\<close>

datatype jsval =
    JNull
  | JBool bool
  | JNum real
  | JStr string
  | JRef nat
  | JObj "(string \<times> jsval) list"

text \<open>
  A property mapping. Reading a property gives \<open>undefined\<close> (\<open>None\<close>) both
  when the key is absent and when it is bound to \<open>undefined\<close>; the adapter only
  ever reads properties, so the two are not distinguished.
\<close>

type_synonym props = "string \<Rightarrow> jsval option"

text \<open>The only exception the adapter throws is a plain \<open>Error\<close> with a message.\<close>

datatype error = Error string

section \<open>The scene graph\<close>

text \<open>
  A \<open>PIXI.Graphics\<close> object is observed through the drawing calls made on it, in
  order, and through its child list. The store holds every scene object; the
  address of an object is its index, and \<open>new\<close> allocates at the end.
\<close>

datatype gcmd =
    BeginFill nat
  | DrawRect jsval jsval jsval jsval
  | EndFill

record graphics =
  commands :: "gcmd list"
  children :: "nat list"

type_synonym store = "graphics list"

definition new_Graphics :: graphics where
  "new_Graphics = \<lparr>commands = [], children = []\<rparr>"

definition beginFill :: "nat \<Rightarrow> graphics \<Rightarrow> graphics" where
  "beginFill color g = g\<lparr>commands := commands g @ [BeginFill color]\<rparr>"

definition drawRect :: "jsval \<Rightarrow> jsval \<Rightarrow> jsval \<Rightarrow> jsval \<Rightarrow> graphics \<Rightarrow> graphics" where
  "drawRect x y width height g = g\<lparr>commands := commands g @ [DrawRect x y width height]\<rparr>"

definition endFill :: "graphics \<Rightarrow> graphics" where
  "endFill g = g\<lparr>commands := commands g @ [EndFill]\<rparr>"

section \<open>The host config (reconciler.js)\<close>

text \<open>
  A destructuring default \<open>{ k = d } = props\<close>: the default is taken exactly when
  the property reads \<open>undefined\<close>.
\<close>

definition destructure :: "props \<Rightarrow> string \<Rightarrow> jsval \<Rightarrow> jsval" where
  "destructure props k d = (case props k of None \<Rightarrow> d | Some v \<Rightarrow> v)"

text \<open>
  \<open>createInstance\<close>. The constant \<open>TYPE_RECTANGLE\<close> is imported from a module
  that is not part of the sources, so it is the first parameter. A throw is
  \<open>Inl\<close>; the store is returned as the call leaves it.
\<close>

definition createInstance ::
  "string \<Rightarrow> string \<Rightarrow> props \<Rightarrow> jsval \<Rightarrow> jsval option \<Rightarrow> jsval
     \<Rightarrow> store \<Rightarrow> (error + jsval) \<times> store" where
  "createInstance TYPE_RECTANGLE type props pixiContainer hostContext internalHandle st =
     (if type = TYPE_RECTANGLE then
        let x = destructure props ''x'' (JNum 0);
            y = destructure props ''y'' (JNum 0);
            width = destructure props ''width'' (JNum 100);
            height = destructure props ''height'' (JNum 100);
            graphics = new_Graphics;
            graphics = beginFill 0xffffff graphics;
            graphics = drawRect x y width height graphics;
            graphics = endFill graphics
        in (Inr (JRef (length st)), st @ [graphics])
      else (Inl (Error (''Unknown element type: '' @ type)), st))"

text \<open>The operations below have an empty body or a single \<open>return\<close>.\<close>

definition appendInitialChild :: "jsval \<Rightarrow> jsval \<Rightarrow> store \<Rightarrow> jsval option \<times> store" where
  "appendInitialChild parentInstance child st = (None, st)"

definition finalizeInitialChildren ::
  "jsval \<Rightarrow> string \<Rightarrow> props \<Rightarrow> jsval \<Rightarrow> jsval option \<Rightarrow> store
     \<Rightarrow> jsval option \<times> store" where
  "finalizeInitialChildren instance type props rootContainer hostContext st =
     (Some (JBool False), st)"

definition prepareUpdate ::
  "jsval \<Rightarrow> string \<Rightarrow> props \<Rightarrow> props \<Rightarrow> jsval \<Rightarrow> jsval option \<Rightarrow> store
     \<Rightarrow> jsval option \<times> store" where
  "prepareUpdate instance type oldProps newProps rootContainer hostContext st = (None, st)"

definition getPublicInstance :: "jsval \<Rightarrow> store \<Rightarrow> jsval option \<times> store" where
  "getPublicInstance instance st = (None, st)"

definition insertBefore :: "jsval \<Rightarrow> jsval \<Rightarrow> jsval \<Rightarrow> store \<Rightarrow> jsval option \<times> store" where
  "insertBefore parentInstance child beforeChild st = (None, st)"

definition clearContainer :: "jsval \<Rightarrow> store \<Rightarrow> jsval option \<times> store" where
  "clearContainer container st = (None, st)"

subsection \<open>The logging decorator\<close>

text \<open>
  A JavaScript function value: its \<open>name\<close> and what a call does to the state.
  The console is the list of the lines logged so far; a line of
  \<open>logFunctionCall\<close> holds the tag, the arguments, the arrow and the result.
\<close>

record ('a, 's, 'r) jsfun =
  name :: string
  call :: "'a \<Rightarrow> 's \<Rightarrow> (error + 'r) \<times> 's"

datatype ('a, 'r) logline = Log string 'a string 'r

text \<open>
  \<open>logFunctionCall cb\<close> applied to \<open>args\<close>: when \<open>cb\<close> throws, the exception
  leaves the wrapper before anything is logged.
\<close>

definition logFunctionCall ::
  "('a, 's, 'r) jsfun \<Rightarrow> 'a \<Rightarrow> 's \<Rightarrow> ('a, 'r) logline list
     \<Rightarrow> ((error + 'r) \<times> 's) \<times> ('a, 'r) logline list" where
  "logFunctionCall cb args st console =
     (case call cb args st of
        (Inl e, st') \<Rightarrow> ((Inl e, st'), console)
      | (Inr result, st') \<Rightarrow>
          ((Inr result, st'), console @ [Log (''[fn] '' @ name cb) args ''=>'' result]))"

text \<open>An operation that cannot throw, as a function value.\<close>

definition returns :: "('a \<Rightarrow> 's \<Rightarrow> 'r \<times> 's) \<Rightarrow> 'a \<Rightarrow> 's \<Rightarrow> (error + 'r) \<times> 's" where
  "returns f args st = (case f args st of (r, st') \<Rightarrow> (Inr r, st'))"

text \<open>Entries of \<open>hostConfig\<close>, each the decorated operation.\<close>

definition hostConfig_createInstance where
  "hostConfig_createInstance TYPE_RECTANGLE =
     logFunctionCall \<lparr>name = ''createInstance'',
       call = (\<lambda>(type, props, pixiContainer, hostContext, internalHandle).
                 createInstance TYPE_RECTANGLE type props pixiContainer hostContext
                   internalHandle)\<rparr>"

definition hostConfig_appendInitialChild where
  "hostConfig_appendInitialChild =
     logFunctionCall \<lparr>name = ''appendInitialChild'',
       call = returns (\<lambda>(parentInstance, child). appendInitialChild parentInstance child)\<rparr>"

definition hostConfig_getPublicInstance where
  "hostConfig_getPublicInstance =
     logFunctionCall \<lparr>name = ''getPublicInstance'', call = returns getPublicInstance\<rparr>"

definition hostConfig_clearContainer where
  "hostConfig_clearContainer =
     logFunctionCall \<lparr>name = ''clearContainer'', call = returns clearContainer\<rparr>"

section \<open>The root session manager (react-pixi/index.js)\<close>

text \<open>
  The reconciliation engine is external: \<open>createContainer\<close> and
  \<open>updateContainer\<close> are parameters acting on the engine's own state \<open>'s\<close>. A
  root handle \<open>'h\<close> is an object, hence truthy; the \<open>_rootContainer\<close> field of a
  container is \<open>None\<close> while it is \<open>undefined\<close>. The world holds that field for
  every container address, the engine state and the console.
\<close>

record ('h, 's, 'e, 'c, 'r) reconciler =
  createContainer :: "nat \<Rightarrow> 's \<Rightarrow> 'h \<times> 's"
  updateContainer :: "'e \<Rightarrow> 'h \<Rightarrow> jsval \<Rightarrow> 'c \<Rightarrow> 's \<Rightarrow> 'r \<times> 's"

datatype 'h info = Info string | InfoWith string 'h

record ('h, 's) world =
  rootContainer_of :: "nat \<Rightarrow> 'h option"
  engine :: 's
  console :: "'h info list"

definition console_info :: "'h info \<Rightarrow> ('h, 's) world \<Rightarrow> ('h, 's) world" where
  "console_info line w = w\<lparr>console := console w @ [line]\<rparr>"

definition render ::
  "('h, 's, 'e, 'c, 'r) reconciler \<Rightarrow> 'e \<Rightarrow> nat \<Rightarrow> 'c \<Rightarrow> ('h, 's) world
     \<Rightarrow> 'r \<times> ('h, 's) world" where
  "render reconciler reactElement pixiContainer callback w =
     (let (root, w) =
            (case rootContainer_of w pixiContainer of
               None \<Rightarrow>
                 let w = console_info (Info ''[ReactPixi] creating container...'') w;
                     (h, s) = createContainer reconciler pixiContainer (engine w);
                     w = w\<lparr>rootContainer_of := (rootContainer_of w)(pixiContainer := Some h),
                           engine := s\<rparr>;
                     w = console_info (InfoWith ''[ReactPixi] created container:'' h) w
                 in (h, w)
             | Some h \<Rightarrow> (h, w));
          w = console_info (Info ''[ReactPixi] updating container...'') w;
          (result, s) = updateContainer reconciler reactElement root JNull callback (engine w);
          w = w\<lparr>engine := s\<rparr>;
          w = console_info (Info ''[ReactPixi] updated container.'') w
      in (result, w))"

text \<open>
  A sequence of \<open>render\<close> calls against one container, each with its element and
  callback; the results are collected in order.
\<close>

fun renders ::
  "('h, 's, 'e, 'c, 'r) reconciler \<Rightarrow> nat \<Rightarrow> ('e \<times> 'c) list \<Rightarrow> ('h, 's) world
     \<Rightarrow> 'r list \<times> ('h, 's) world" where
  "renders reconciler pixiContainer [] w = ([], w)"
| "renders reconciler pixiContainer ((reactElement, callback) # calls) w =
     (case render reconciler reactElement pixiContainer callback w of
        (result, w') \<Rightarrow>
          (case renders reconciler pixiContainer calls w' of
             (results, w'') \<Rightarrow> (result # results, w'')))"

text \<open>How many root handles have been created, read off the console.\<close>

definition creations :: "('h, 's) world \<Rightarrow> nat" where
  "creations w =
     length (filter (\<lambda>line. line = Info ''[ReactPixi] creating container...'') (console w))"

text \<open>
  What the engine alone does with a sequence of updates submitted against one
  handle \<open>h\<close>: the results in order and the engine state at the end. No handle
  is created here.
\<close>

fun submit_updates ::
  "('h, 's, 'e, 'c, 'r) reconciler \<Rightarrow> 'h \<Rightarrow> ('e \<times> 'c) list \<Rightarrow> 's \<Rightarrow> 'r list \<times> 's" where
  "submit_updates reconciler h [] s = ([], s)"
| "submit_updates reconciler h ((reactElement, callback) # calls) s =
     (case updateContainer reconciler reactElement h JNull callback s of
        (result, s') \<Rightarrow>
          (case submit_updates reconciler h calls s' of
             (results, s'') \<Rightarrow> (result # results, s'')))"

text \<open>The two console lines every call writes around its update, for each call.\<close>

fun update_lines :: "'a list \<Rightarrow> 'h info list" where
  "update_lines [] = []"
| "update_lines (c # calls) =
     Info ''[ReactPixi] updating container...'' # Info ''[ReactPixi] updated container.''
       # update_lines calls"

text \<open>A small engine for concrete runs: handles and results are counters.\<close>

definition counting_engine :: "(nat, nat, nat, unit, nat \<times> nat) reconciler" where
  "counting_engine =
     \<lparr>createContainer = (\<lambda>c s. (s, Suc s)),
      updateContainer = (\<lambda>e h p cb s. ((e, h), Suc s))\<rparr>"

definition fresh_world :: "(nat, nat) world" where
  "fresh_world = \<lparr>rootContainer_of = (\<lambda>c. None), engine = 7, console = []\<rparr>"

section \<open>Example stores\<close>

definition two_children :: store where
  "two_children = [\<lparr>commands = [], children = [1, 2]\<rparr>, new_Graphics, new_Graphics]"

definition rect50 :: "real \<Rightarrow> props" where
  "rect50 x = [''x'' \<mapsto> JNum x, ''y'' \<mapsto> JNum 0, ''width'' \<mapsto> JNum 50,
               ''height'' \<mapsto> JNum 50]"

section \<open>Node creation\<close>

text \<open>
  C1: for every kind other than the rectangle kind \<open>createInstance\<close> throws (the
  error carries the kind in its message) and the store is as before, so no node
  was made; for the rectangle kind it returns a reference to one new node.
\<close>

theorem createInstance_unsupported_kind:
  "(type \<noteq> TYPE_RECTANGLE \<longrightarrow>
      createInstance TYPE_RECTANGLE type props pixiContainer hostContext internalHandle st
        = (Inl (Error (''Unknown element type: '' @ type)), st))
   \<and> (type = TYPE_RECTANGLE \<longrightarrow>
        (\<exists>node. createInstance TYPE_RECTANGLE type props pixiContainer hostContext
                  internalHandle st
                = (Inr (JRef (length st)), st @ [node])))"
  by (simp add: createInstance_def Let_def)

theorem createInstance_unsupported_kind_witness:
  "createInstance ''rectangle'' ''circle'' (\<lambda>k. None) (JRef 0) None JNull [new_Graphics]
     = (Inl (Error ''Unknown element type: circle''), [new_Graphics])
   \<and> (\<exists>node. createInstance ''rectangle'' ''rectangle'' (\<lambda>k. None) (JRef 0) None JNull
               [new_Graphics]
             = (Inr (JRef 1), [new_Graphics, node]))"
  using createInstance_unsupported_kind
          [of "''circle''" "''rectangle''" "\<lambda>k. None" "JRef 0" None JNull "[new_Graphics]"]
        createInstance_unsupported_kind
          [of "''rectangle''" "''rectangle''" "\<lambda>k. None" "JRef 0" None JNull "[new_Graphics]"]
  by simp

text \<open>
  C2: for the rectangle kind and any property mapping, the new node is filled
  with \<open>0xffffff\<close> and one rectangle is drawn; each of \<open>x\<close>, \<open>y\<close>, \<open>width\<close>,
  \<open>height\<close> is the given value when the property is there and the default
  (0, 0, 100, 100) when it is omitted.
\<close>

theorem createInstance_defaults:
  "\<exists>x y width height.
     createInstance TYPE_RECTANGLE TYPE_RECTANGLE props pixiContainer hostContext
         internalHandle st
       = (Inr (JRef (length st)),
          st @ [\<lparr>commands = [BeginFill 0xffffff, DrawRect x y width height, EndFill],
                 children = []\<rparr>])
     \<and> (props ''x'' = None \<longrightarrow> x = JNum 0)
     \<and> (\<forall>v. props ''x'' = Some v \<longrightarrow> x = v)
     \<and> (props ''y'' = None \<longrightarrow> y = JNum 0)
     \<and> (\<forall>v. props ''y'' = Some v \<longrightarrow> y = v)
     \<and> (props ''width'' = None \<longrightarrow> width = JNum 100)
     \<and> (\<forall>v. props ''width'' = Some v \<longrightarrow> width = v)
     \<and> (props ''height'' = None \<longrightarrow> height = JNum 100)
     \<and> (\<forall>v. props ''height'' = Some v \<longrightarrow> height = v)"
  by (simp add: createInstance_def Let_def new_Graphics_def beginFill_def drawRect_def
        endFill_def destructure_def)

theorem createInstance_defaults_witness:
  "createInstance ''rectangle'' ''rectangle'' [''x'' \<mapsto> JNum 5, ''height'' \<mapsto> JNum 7]
       (JRef 0) None JNull []
     = (Inr (JRef 0),
        [\<lparr>commands = [BeginFill 0xffffff, DrawRect (JNum 5) (JNum 0) (JNum 100) (JNum 7),
                       EndFill],
          children = []\<rparr>])"
  using createInstance_defaults
          [of "''rectangle''" "[''x'' \<mapsto> JNum 5, ''height'' \<mapsto> JNum 7]" "JRef 0" None JNull
              "[]"]
  by auto

section \<open>Operations with an empty body\<close>

lemma prepareUpdate_undefined:
  "prepareUpdate instance type oldProps newProps rootContainer hostContext st = (None, st)"
  by (simp add: prepareUpdate_def)

text \<open>
  C3: with \<open>x\<close> changed from 0 to 10 and nothing else, \<open>prepareUpdate\<close> returns
  \<open>undefined\<close>, not a payload holding \<open>x: 10\<close>; with nothing changed it returns
  \<open>undefined\<close> too, not \<open>null\<close>. The store is untouched in both calls.
\<close>

theorem prepareUpdate_changed_x_no_payload:
  "prepareUpdate (JRef 1) ''rectangle'' (rect50 0) (rect50 10) (JRef 0) None two_children
     = (None, two_children)
   \<and> fst (prepareUpdate (JRef 1) ''rectangle'' (rect50 0) (rect50 10) (JRef 0) None
            two_children)
       \<noteq> Some (JObj [(''x'', JNum 10)])
   \<and> rect50 0 ''x'' \<noteq> rect50 10 ''x''
   \<and> fst (prepareUpdate (JRef 1) ''rectangle'' (rect50 0) (rect50 0) (JRef 0) None
            two_children)
       \<noteq> Some JNull"
  by (simp add: prepareUpdate_def rect50_def)

text \<open>
  C5: in a parent whose child list is \<open>[S, C]\<close> (addresses 1 and 2),
  \<open>insertBefore\<close> of \<open>C\<close> before \<open>S\<close> leaves the list \<open>[S, C]\<close>: \<open>C\<close> is not moved
  in front of \<open>S\<close>.
\<close>

theorem insertBefore_does_not_reorder:
  "children (snd (insertBefore (JRef 0) (JRef 2) (JRef 1) two_children) ! 0) = [1, 2]
   \<and> children (snd (insertBefore (JRef 0) (JRef 2) (JRef 1) two_children) ! 0) \<noteq> [2, 1]"
  by (simp add: insertBefore_def two_children_def)

text \<open>
  C6: \<open>clearContainer\<close> on a container with two children leaves both attached:
  the child list is not empty afterwards.
\<close>

theorem clearContainer_keeps_children:
  "children (snd (clearContainer (JRef 0) two_children) ! 0) = [1, 2]
   \<and> children (snd (clearContainer (JRef 0) two_children) ! 0) \<noteq> []"
  by (simp add: clearContainer_def two_children_def)

text \<open>
  C7: \<open>getPublicInstance\<close> of the node at address 1 returns \<open>undefined\<close>, not the
  node.
\<close>

theorem getPublicInstance_undefined:
  "getPublicInstance (JRef 1) two_children = (None, two_children)
   \<and> fst (getPublicInstance (JRef 1) two_children) \<noteq> Some (JRef 1)"
  by (simp add: getPublicInstance_def)

text \<open>
  C9: \<open>finalizeInitialChildren\<close> returns \<open>false\<close> for every instance, type,
  property mapping, root container and host context, and touches nothing.
\<close>

theorem finalizeInitialChildren_false:
  "finalizeInitialChildren instance type props rootContainer hostContext st
     = (Some (JBool False), st)"
  by (simp add: finalizeInitialChildren_def)

text \<open>
  C10: \<open>appendInitialChild\<close> is a no-op: the store, and with it the child list of
  the parent and the child itself, is what it was, and nothing is returned.
\<close>

theorem appendInitialChild_noop:
  "appendInitialChild parentInstance child st = (None, st)"
  by (simp add: appendInitialChild_def)

section \<open>The logging decorator forwards\<close>

lemma logFunctionCall_console:
  "snd (logFunctionCall cb args st out) =
     (case fst (call cb args st) of
        Inl e \<Rightarrow> out
      | Inr result \<Rightarrow> out @ [Log (''[fn] '' @ name cb) args ''=>'' result])"
  by (simp add: logFunctionCall_def split: prod.splits sum.splits)

lemma hostConfig_createInstance_result:
  "fst (hostConfig_createInstance TYPE_RECTANGLE
          (type, props, pixiContainer, hostContext, internalHandle) st out)
     = createInstance TYPE_RECTANGLE type props pixiContainer hostContext internalHandle st"
  by (simp add: hostConfig_createInstance_def logFunctionCall_def
        split: prod.splits sum.splits)

lemma hostConfig_getPublicInstance_result:
  "fst (hostConfig_getPublicInstance instance st out) = (Inr None, st)"
  by (simp add: hostConfig_getPublicInstance_def logFunctionCall_def returns_def
        getPublicInstance_def)

text \<open>
  C8: for every function \<open>cb\<close>, arguments and state, the call of
  \<open>logFunctionCall cb\<close> gives what the call of \<open>cb\<close> gives: the same returned
  value or thrown error, and the same state; the line on the console is the
  only difference.
\<close>

theorem logFunctionCall_forwards:
  "fst (logFunctionCall cb args st out) = call cb args st"
  by (cases "call cb args st"; cases "fst (call cb args st)")
     (simp_all add: logFunctionCall_def)

section \<open>One root handle per container\<close>


lemma render_cached:
  assumes "rootContainer_of w pixiContainer = Some h"
  shows "render rc el pixiContainer cb w =
     (fst (updateContainer rc el h JNull cb (engine w)),
      w\<lparr>engine := snd (updateContainer rc el h JNull cb (engine w)),
        console := console w @ [Info ''[ReactPixi] updating container...'',
                                Info ''[ReactPixi] updated container.'']\<rparr>)"
  using assms by (simp add: render_def console_info_def split_beta)

lemma render_fresh:
  assumes "rootContainer_of w pixiContainer = None"
  shows "render rc el pixiContainer cb w =
     (fst (updateContainer rc el (fst (createContainer rc pixiContainer (engine w))) JNull cb
             (snd (createContainer rc pixiContainer (engine w)))),
      w\<lparr>rootContainer_of :=
           (rootContainer_of w)
             (pixiContainer := Some (fst (createContainer rc pixiContainer (engine w)))),
        engine :=
          snd (updateContainer rc el (fst (createContainer rc pixiContainer (engine w))) JNull
                 cb (snd (createContainer rc pixiContainer (engine w)))),
        console :=
          console w @ [Info ''[ReactPixi] creating container...'',
                       InfoWith ''[ReactPixi] created container:''
                         (fst (createContainer rc pixiContainer (engine w))),
                       Info ''[ReactPixi] updating container...'',
                       Info ''[ReactPixi] updated container.'']\<rparr>)"
  using assms by (simp add: render_def console_info_def split_beta Let_def)

lemma creations_update_lines:
  "length (filter (\<lambda>line. line = Info ''[ReactPixi] creating container...'')
             (update_lines calls)) = 0"
  by (induction calls) simp_all

lemma renders_cached:
  "rootContainer_of w pixiContainer = Some h \<Longrightarrow>
   renders rc pixiContainer calls w =
     (fst (submit_updates rc h calls (engine w)),
      w\<lparr>engine := snd (submit_updates rc h calls (engine w)),
        console := console w @ update_lines calls\<rparr>)"
proof (induction calls arbitrary: w)
  case Nil
  then show ?case by simp
next
  case (Cons a calls)
  obtain el cb where a: "a = (el, cb)" by (cases a)
  let ?w' = "snd (render rc el pixiContainer cb w)"
  have w': "?w' = w\<lparr>engine := snd (updateContainer rc el h JNull cb (engine w)),
        console := console w @ [Info ''[ReactPixi] updating container...'',
                                Info ''[ReactPixi] updated container.'']\<rparr>"
    using Cons.prems by (simp add: render_cached)
  then have "rootContainer_of ?w' pixiContainer = Some h" using Cons.prems by simp
  from Cons.IH[OF this] w' Cons.prems show ?case
    by (simp add: a split_beta render_cached)
qed

lemma renders_fresh:
  assumes "rootContainer_of w pixiContainer = None"
  shows "renders rc pixiContainer ((el, cb) # rest) w =
     (fst (submit_updates rc (fst (createContainer rc pixiContainer (engine w)))
             ((el, cb) # rest) (snd (createContainer rc pixiContainer (engine w)))),
      w\<lparr>rootContainer_of :=
           (rootContainer_of w)
             (pixiContainer := Some (fst (createContainer rc pixiContainer (engine w)))),
        engine :=
          snd (submit_updates rc (fst (createContainer rc pixiContainer (engine w)))
                 ((el, cb) # rest) (snd (createContainer rc pixiContainer (engine w)))),
        console :=
          console w @ Info ''[ReactPixi] creating container...''
            # InfoWith ''[ReactPixi] created container:''
                (fst (createContainer rc pixiContainer (engine w)))
            # update_lines ((el, cb) # rest)\<rparr>)"
proof -
  let ?h = "fst (createContainer rc pixiContainer (engine w))"
  let ?w1 = "snd (render rc el pixiContainer cb w)"
  have c: "rootContainer_of ?w1 pixiContainer = Some ?h"
    using assms by (simp add: render_fresh)
  show ?thesis
    using assms by (simp add: renders_cached[OF c] split_beta) (simp add: render_fresh)
qed

text \<open>
  C4: the first \<open>render\<close> against a container without a handle asks the engine
  for one handle, caches it on that container and on no other, submits the update
  against it and returns what the engine returned; a \<open>render\<close> against a
  container that has a handle \<open>h\<close> creates nothing, leaves every cached handle
  as it is, submits the update against \<open>h\<close> and returns what the engine
  returned. Over any sequence of calls against the container the engine is asked
  for a handle at most once, by the first call when none was cached, every update
  goes to that one handle, and it is still the cached one at the end. In each
  case the whole result is given: returned values, cached handles, engine state
  and console.
\<close>

theorem render_root_singleton:
  "(rootContainer_of w pixiContainer = None \<longrightarrow>
      render rc el pixiContainer cb w =
        (fst (updateContainer rc el (fst (createContainer rc pixiContainer (engine w))) JNull
                cb (snd (createContainer rc pixiContainer (engine w)))),
         w\<lparr>rootContainer_of :=
              (rootContainer_of w)
                (pixiContainer := Some (fst (createContainer rc pixiContainer (engine w)))),
           engine :=
             snd (updateContainer rc el (fst (createContainer rc pixiContainer (engine w)))
                    JNull cb (snd (createContainer rc pixiContainer (engine w)))),
           console :=
             console w @ [Info ''[ReactPixi] creating container...'',
                          InfoWith ''[ReactPixi] created container:''
                            (fst (createContainer rc pixiContainer (engine w))),
                          Info ''[ReactPixi] updating container...'',
                          Info ''[ReactPixi] updated container.'']\<rparr>)
      \<and> creations (snd (render rc el pixiContainer cb w)) = creations w + 1)
   \<and> (\<forall>h. rootContainer_of w pixiContainer = Some h \<longrightarrow>
        render rc el pixiContainer cb w =
          (fst (updateContainer rc el h JNull cb (engine w)),
           w\<lparr>engine := snd (updateContainer rc el h JNull cb (engine w)),
             console := console w @ [Info ''[ReactPixi] updating container...'',
                                     Info ''[ReactPixi] updated container.'']\<rparr>)
        \<and> rootContainer_of (snd (render rc el pixiContainer cb w)) = rootContainer_of w
        \<and> creations (snd (render rc el pixiContainer cb w)) = creations w)
   \<and> (rootContainer_of w pixiContainer = None \<and> calls \<noteq> [] \<longrightarrow>
        renders rc pixiContainer calls w =
          (fst (submit_updates rc (fst (createContainer rc pixiContainer (engine w))) calls
                  (snd (createContainer rc pixiContainer (engine w)))),
           w\<lparr>rootContainer_of :=
                (rootContainer_of w)
                  (pixiContainer := Some (fst (createContainer rc pixiContainer (engine w)))),
             engine :=
               snd (submit_updates rc (fst (createContainer rc pixiContainer (engine w)))
                      calls (snd (createContainer rc pixiContainer (engine w)))),
             console :=
               console w @ Info ''[ReactPixi] creating container...''
                 # InfoWith ''[ReactPixi] created container:''
                     (fst (createContainer rc pixiContainer (engine w)))
                 # update_lines calls\<rparr>)
        \<and> creations (snd (renders rc pixiContainer calls w)) = creations w + 1)
   \<and> (\<forall>h. rootContainer_of w pixiContainer = Some h \<longrightarrow>
        renders rc pixiContainer calls w =
          (fst (submit_updates rc h calls (engine w)),
           w\<lparr>engine := snd (submit_updates rc h calls (engine w)),
             console := console w @ update_lines calls\<rparr>)
        \<and> creations (snd (renders rc pixiContainer calls w)) = creations w)"
proof (intro conjI impI allI)
  assume n: "rootContainer_of w pixiContainer = None"
  show "render rc el pixiContainer cb w =
        (fst (updateContainer rc el (fst (createContainer rc pixiContainer (engine w))) JNull
                cb (snd (createContainer rc pixiContainer (engine w)))),
         w\<lparr>rootContainer_of :=
              (rootContainer_of w)
                (pixiContainer := Some (fst (createContainer rc pixiContainer (engine w)))),
           engine :=
             snd (updateContainer rc el (fst (createContainer rc pixiContainer (engine w)))
                    JNull cb (snd (createContainer rc pixiContainer (engine w)))),
           console :=
             console w @ [Info ''[ReactPixi] creating container...'',
                          InfoWith ''[ReactPixi] created container:''
                            (fst (createContainer rc pixiContainer (engine w))),
                          Info ''[ReactPixi] updating container...'',
                          Info ''[ReactPixi] updated container.'']\<rparr>)"
    by (rule render_fresh[OF n])
  show "creations (snd (render rc el pixiContainer cb w)) = creations w + 1"
    by (simp add: render_fresh[OF n] creations_def)
next
  fix h assume c: "rootContainer_of w pixiContainer = Some h"
  show "render rc el pixiContainer cb w =
          (fst (updateContainer rc el h JNull cb (engine w)),
           w\<lparr>engine := snd (updateContainer rc el h JNull cb (engine w)),
             console := console w @ [Info ''[ReactPixi] updating container...'',
                                     Info ''[ReactPixi] updated container.'']\<rparr>)"
    by (rule render_cached[OF c])
  show "rootContainer_of (snd (render rc el pixiContainer cb w)) = rootContainer_of w"
    by (simp add: render_cached[OF c])
  show "creations (snd (render rc el pixiContainer cb w)) = creations w"
    by (simp add: render_cached[OF c] creations_def)
next
  assume a: "rootContainer_of w pixiContainer = None \<and> calls \<noteq> []"
  then obtain el1 cb1 rest where calls: "calls = (el1, cb1) # rest"
    by (cases calls) auto
  from a have n: "rootContainer_of w pixiContainer = None" by simp
  show "renders rc pixiContainer calls w =
          (fst (submit_updates rc (fst (createContainer rc pixiContainer (engine w))) calls
                  (snd (createContainer rc pixiContainer (engine w)))),
           w\<lparr>rootContainer_of :=
                (rootContainer_of w)
                  (pixiContainer := Some (fst (createContainer rc pixiContainer (engine w)))),
             engine :=
               snd (submit_updates rc (fst (createContainer rc pixiContainer (engine w)))
                      calls (snd (createContainer rc pixiContainer (engine w)))),
             console :=
               console w @ Info ''[ReactPixi] creating container...''
                 # InfoWith ''[ReactPixi] created container:''
                     (fst (createContainer rc pixiContainer (engine w)))
                 # update_lines calls\<rparr>)"
    unfolding calls by (rule renders_fresh[OF n])
  show "creations (snd (renders rc pixiContainer calls w)) = creations w + 1"
    unfolding calls
    by (simp only: renders_fresh[OF n]) (simp add: creations_def creations_update_lines)
next
  fix h assume c: "rootContainer_of w pixiContainer = Some h"
  show "renders rc pixiContainer calls w =
          (fst (submit_updates rc h calls (engine w)),
           w\<lparr>engine := snd (submit_updates rc h calls (engine w)),
             console := console w @ update_lines calls\<rparr>)"
    by (rule renders_cached[OF c])
  show "creations (snd (renders rc pixiContainer calls w)) = creations w"
    by (simp only: renders_cached[OF c]) (simp add: creations_def creations_update_lines)
qed

theorem render_root_singleton_witness:
  "rootContainer_of fresh_world 0 = None
   \<and> render counting_engine 1 0 () fresh_world =
       ((1, 7),
        \<lparr>rootContainer_of = (\<lambda>c. None)(0 := Some 7), engine = 9,
         console = [Info ''[ReactPixi] creating container...'',
                    InfoWith ''[ReactPixi] created container:'' 7,
                    Info ''[ReactPixi] updating container...'',
                    Info ''[ReactPixi] updated container.'']\<rparr>)
   \<and> fst (render counting_engine 2 0 () (snd (render counting_engine 1 0 () fresh_world)))
       = (2, 7)
   \<and> engine (snd (render counting_engine 2 0 () (snd (render counting_engine 1 0 () fresh_world))))
       = 10
   \<and> rootContainer_of
        (snd (render counting_engine 2 0 () (snd (render counting_engine 1 0 () fresh_world))))
       = (\<lambda>c. None)(0 := Some 7)
   \<and> fst (renders counting_engine 0 [(1, ()), (2, ()), (3, ())] fresh_world)
       = [(1, 7), (2, 7), (3, 7)]
   \<and> engine (snd (renders counting_engine 0 [(1, ()), (2, ()), (3, ())] fresh_world)) = 11
   \<and> rootContainer_of
        (snd (renders counting_engine 0 [(1, ()), (2, ()), (3, ())] fresh_world))
       = (\<lambda>c. None)(0 := Some 7)
   \<and> creations (snd (renders counting_engine 0 [(1, ()), (2, ()), (3, ())] fresh_world)) = 1"
proof -
  have n: "rootContainer_of fresh_world 0 = None" by (simp add: fresh_world_def)
  note t = render_root_singleton
             [of fresh_world 0 counting_engine 1 "()" "[(1, ()), (2, ()), (3, ())]"]
  have first: "render counting_engine 1 0 () fresh_world =
       ((1, 7),
        \<lparr>rootContainer_of = (\<lambda>c. None)(0 := Some 7), engine = 9,
         console = [Info ''[ReactPixi] creating container...'',
                    InfoWith ''[ReactPixi] created container:'' 7,
                    Info ''[ReactPixi] updating container...'',
                    Info ''[ReactPixi] updated container.'']\<rparr>)"
    using t n by (simp add: counting_engine_def fresh_world_def)
  have seq: "renders counting_engine 0 [(1, ()), (2, ()), (3, ())] fresh_world =
       ([(1, 7), (2, 7), (3, 7)],
        \<lparr>rootContainer_of = (\<lambda>c. None)(0 := Some 7), engine = 11,
         console = Info ''[ReactPixi] creating container...''
                    # InfoWith ''[ReactPixi] created container:'' 7
                    # update_lines [(1::nat, ()), (2, ()), (3, ())]\<rparr>)"
  proof -
    have "renders counting_engine 0 [(1, ()), (2, ()), (3, ())] fresh_world =
          (fst (submit_updates counting_engine
                  (fst (createContainer counting_engine 0 (engine fresh_world)))
                  [(1, ()), (2, ()), (3, ())]
                  (snd (createContainer counting_engine 0 (engine fresh_world)))),
           fresh_world\<lparr>rootContainer_of :=
                (rootContainer_of fresh_world)
                  (0 := Some (fst (createContainer counting_engine 0 (engine fresh_world)))),
             engine :=
               snd (submit_updates counting_engine
                      (fst (createContainer counting_engine 0 (engine fresh_world)))
                      [(1, ()), (2, ()), (3, ())]
                      (snd (createContainer counting_engine 0 (engine fresh_world)))),
             console :=
               console fresh_world @ Info ''[ReactPixi] creating container...''
                 # InfoWith ''[ReactPixi] created container:''
                     (fst (createContainer counting_engine 0 (engine fresh_world)))
                 # update_lines [(1::nat, ()), (2, ()), (3, ())]\<rparr>)"
      using t n by blast
    then show ?thesis
      by (simp only:) (simp add: counting_engine_def fresh_world_def)
  qed
  have cr: "creations (snd (renders counting_engine 0 [(1, ()), (2, ()), (3, ())] fresh_world))
              = 1"
    by (simp only: seq) (simp add: creations_def)
  have c: "rootContainer_of (snd (render counting_engine 1 0 () fresh_world)) 0 = Some 7"
    by (simp only: first) simp
  note t2 = render_root_singleton
              [of "snd (render counting_engine 1 0 () fresh_world)" 0 counting_engine 2 "()" "[]"]
  have second:
    "render counting_engine 2 0 () (snd (render counting_engine 1 0 () fresh_world)) =
       ((2, 7),
        \<lparr>rootContainer_of = (\<lambda>c. None)(0 := Some 7), engine = 10,
         console = [Info ''[ReactPixi] creating container...'',
                    InfoWith ''[ReactPixi] created container:'' 7,
                    Info ''[ReactPixi] updating container...'',
                    Info ''[ReactPixi] updated container.'',
                    Info ''[ReactPixi] updating container...'',
                    Info ''[ReactPixi] updated container.'']\<rparr>)"
  proof -
    have "render counting_engine 2 0 () (snd (render counting_engine 1 0 () fresh_world)) =
          (fst (updateContainer counting_engine 2 7 JNull ()
                  (engine (snd (render counting_engine 1 0 () fresh_world)))),
           (snd (render counting_engine 1 0 () fresh_world))
             \<lparr>engine :=
                snd (updateContainer counting_engine 2 7 JNull ()
                       (engine (snd (render counting_engine 1 0 () fresh_world)))),
              console :=
                console (snd (render counting_engine 1 0 () fresh_world))
                  @ [Info ''[ReactPixi] updating container...'',
                     Info ''[ReactPixi] updated container.'']\<rparr>)"
      using t2 c by blast
    then show ?thesis
      by (simp only: first) (simp add: counting_engine_def)
  qed
  have r2: "fst (render counting_engine 2 0 () (snd (render counting_engine 1 0 () fresh_world)))
       = (2, 7)"
    by (simp only: second) simp
  have e2: "engine (snd (render counting_engine 2 0 ()
                           (snd (render counting_engine 1 0 () fresh_world)))) = 10"
    by (simp only: second) simp
  have h2: "rootContainer_of
        (snd (render counting_engine 2 0 () (snd (render counting_engine 1 0 () fresh_world))))
       = (\<lambda>c. None)(0 := Some 7)"
    by (simp only: second) simp
  have r3: "fst (renders counting_engine 0 [(1, ()), (2, ()), (3, ())] fresh_world)
       = [(1, 7), (2, 7), (3, 7)]"
    by (simp only: seq) simp
  have e3: "engine (snd (renders counting_engine 0 [(1, ()), (2, ()), (3, ())] fresh_world))
       = 11"
    by (simp only: seq) simp
  have h3: "rootContainer_of
        (snd (renders counting_engine 0 [(1, ()), (2, ()), (3, ())] fresh_world))
       = (\<lambda>c. None)(0 := Some 7)"
    by (simp only: seq) simp
  show ?thesis
    by (intro conjI) (fact n first r2 e2 h2 r3 e3 h3 cr)+
qed

end
